theory Spec2Isabelle
  imports Complex_Main "HOL-Library.Stream"
begin

section \<open>JavaScript values\<close>

text \<open>
  The values script.js handles come from JSON (the two remote payloads and the cached
  record) or from its own object literals. Numbers are modelled as reals: the IEEE
  rounding of the arithmetic operators is not modelled. An object is the list of its
  own properties, looked up by key.
\<close>

datatype js =
    Undefined
  | Null
  | Bool bool
  | Num real
  | Str string
  | Arr "js list"
  | Obj "(string \<times> js) list"

datatype js_error = TypeError | SyntaxError | Error string

text \<open>The truthiness test of \<^verbatim>\<open>if (x)\<close>, \<^verbatim>\<open>!x\<close> and \<^verbatim>\<open>x || d\<close>.\<close>

fun truthy :: "js \<Rightarrow> bool" where
  "truthy Undefined = False"
| "truthy Null = False"
| "truthy (Bool b) = b"
| "truthy (Num x) = (x \<noteq> 0)"
| "truthy (Str s) = (s \<noteq> [])"
| "truthy (Arr xs) = True"
| "truthy (Obj ps) = True"

text \<open>\<^verbatim>\<open>a || d\<close>\<close>

definition orElse :: "js \<Rightarrow> js \<Rightarrow> js" where
  "orElse a d = (if truthy a then a else d)"

fun nullish :: "js \<Rightarrow> bool" where
  "nullish Undefined = True"
| "nullish Null = True"
| "nullish v = False"

text \<open>
  \<^verbatim>\<open>v.k\<close>: a TypeError on \<^verbatim>\<open>undefined\<close> and \<^verbatim>\<open>null\<close>, the property's value on an
  object that has it, \<^verbatim>\<open>undefined\<close> otherwise. It is used with the property names of
  script.js only, none of which numbers, booleans, strings or arrays inherit.
\<close>

fun getProp :: "js \<Rightarrow> string \<Rightarrow> js_error + js" where
  "getProp Undefined k = Inl TypeError"
| "getProp Null k = Inl TypeError"
| "getProp (Obj ps) k = Inr (case map_of ps k of None \<Rightarrow> Undefined | Some v \<Rightarrow> v)"
| "getProp v k = Inr Undefined"

text \<open>\<^verbatim>\<open>v[0]\<close>: the first element of an array, the first character of a string.\<close>

fun getIndex0 :: "js \<Rightarrow> js_error + js" where
  "getIndex0 Undefined = Inl TypeError"
| "getIndex0 Null = Inl TypeError"
| "getIndex0 (Arr xs) = Inr (case xs of [] \<Rightarrow> Undefined | x # _ \<Rightarrow> x)"
| "getIndex0 (Str s) = Inr (case s of [] \<Rightarrow> Undefined | c # _ \<Rightarrow> Str [c])"
| "getIndex0 (Obj ps) = Inr (case map_of ps ''0'' of None \<Rightarrow> Undefined | Some v \<Rightarrow> v)"
| "getIndex0 v = Inr Undefined"

text \<open>\<^verbatim>\<open>v?.k\<close>: \<^verbatim>\<open>undefined\<close> where \<^verbatim>\<open>v\<close> is \<^verbatim>\<open>undefined\<close> or \<^verbatim>\<open>null\<close>.\<close>

definition optProp :: "js \<Rightarrow> string \<Rightarrow> js" where
  "optProp v k = (if nullish v then Undefined
                  else (case getProp v k of Inl e \<Rightarrow> Undefined | Inr w \<Rightarrow> w))"

text \<open>Sequencing of steps that may throw: the first exception ends the block.\<close>

definition andThen :: "js_error + 'a \<Rightarrow> ('a \<Rightarrow> js_error + 'b) \<Rightarrow> js_error + 'b" where
  "andThen r f = (case r of Inl e \<Rightarrow> Inl e | Inr v \<Rightarrow> f v)"

section \<open>The page's state and its environment\<close>

text \<open>
  The wall-clock fields of \<^verbatim>\<open>istTime\<close>, the current time in Asia/Kolkata:
  \<^verbatim>\<open>getDay()\<close> (0 is Sunday), \<^verbatim>\<open>getHours()\<close> and \<^verbatim>\<open>getMinutes()\<close>.
\<close>

record date =
  getDay :: nat
  getHours :: nat
  getMinutes :: nat

text \<open>
  What \<^verbatim>\<open>fetch\<close> gives: the promise rejects (\<open>NetworkFailure\<close>), or it resolves to a
  response with its \<^verbatim>\<open>ok\<close> flag and the value \<^verbatim>\<open>response.json()\<close> resolves to
  (\<open>None\<close> where the body is not JSON and \<^verbatim>\<open>json()\<close> rejects).
\<close>

datatype response = NetworkFailure | Response bool "js option"

text \<open>
  The text stored under the key \<^verbatim>\<open>lastTradingDayData\<close>, as far as the code reads it:
  \<open>Parseable v\<close> is a text that \<^verbatim>\<open>JSON.parse\<close> maps to \<open>v\<close> (never empty),
  \<open>Unparseable s\<close> is a text \<open>s\<close> that \<^verbatim>\<open>JSON.parse\<close> rejects, the empty text among them.
\<close>

datatype stored = Parseable js | Unparseable string

fun nonEmptyText :: "stored \<Rightarrow> bool" where
  "nonEmptyText (Parseable v) = True"
| "nonEmptyText (Unparseable s) = (s \<noteq> [])"

fun JSON_parse :: "stored \<Rightarrow> js_error + js" where
  "JSON_parse (Parseable v) = Inr v"
| "JSON_parse (Unparseable s) = Inl SyntaxError"

text \<open>
  The elements the script writes. A text element holds the value whose formatting is
  shown (the locale formatting, the sign and the colour class are not modelled), \<open>None\<close>
  while the script has not written it. \<open>lastUpdated_el\<close> holds whether the time shown
  carries the suffix \<^verbatim>\<open>(Last Trading Day)\<close>; \<open>priceChart\<close> holds the series drawn.
\<close>

record dom =
  price_el :: "js option"
  changeValue_el :: "js option"
  changePercent_el :: "js option"
  high_el :: "js option"
  low_el :: "js option"
  open_el :: "js option"
  close_el :: "js option"
  lastUpdated_el :: "bool option"
  priceChart :: "js list option"

text \<open>
  The globals of script.js (\<open>currentData\<close>, \<open>priceHistory\<close>, \<open>maxHistoryLength\<close>), the
  cache slot of \<^verbatim>\<open>localStorage\<close>, the page, and what the environment will answer: the
  time each coming call of \<^verbatim>\<open>isMarketOpen\<close> reads, the response to each coming request
  of the live and of the historical URL, and the coming values of \<^verbatim>\<open>Math.random()\<close>.
\<close>

record state =
  currentData :: js
  priceHistory :: "js list"
  maxHistoryLength :: nat
  localStorage :: "stored option"
  document :: dom
  clock :: "date stream"
  liveResponses :: "response stream"
  histResponses :: "response stream"
  randoms :: "real stream"

definition quote :: "js \<Rightarrow> js \<Rightarrow> js \<Rightarrow> js \<Rightarrow> js \<Rightarrow> js \<Rightarrow> js \<Rightarrow> (string \<times> js) list" where
  "quote p c cp h l o' cl =
     [(''price'', p), (''change'', c), (''changePercent'', cp), (''high'', h),
      (''low'', l), (''open'', o'), (''close'', cl)]"

definition blankPage :: dom where
  "blankPage = \<lparr>price_el = None, changeValue_el = None, changePercent_el = None,
     high_el = None, low_el = None, open_el = None, close_el = None,
     lastUpdated_el = None, priceChart = None\<rparr>"

text \<open>The state when the script has loaded (lines 9 to 22), in a given environment.\<close>

definition initialState ::
  "stored option \<Rightarrow> date stream \<Rightarrow> response stream \<Rightarrow> response stream \<Rightarrow> real stream \<Rightarrow> state" where
  "initialState cache ts lives hists rs =
     \<lparr>currentData = Obj (quote (Num 0) (Num 0) (Num 0) (Num 0) (Num 0) (Num 0) (Num 0)),
      priceHistory = [], maxHistoryLength = 20, localStorage = cache,
      document = blankPage, clock = ts, liveResponses = lives, histResponses = hists,
      randoms = rs\<rparr>"

section \<open>The market calendar\<close>

text \<open>\<^verbatim>\<open>isMarketOpen\<close> (lines 42 to 59), as a function of \<^verbatim>\<open>istTime\<close>.\<close>

definition isMarketOpen :: "date \<Rightarrow> bool" where
  "isMarketOpen istTime =
     (let dayOfWeek = getDay istTime;
          hours = getHours istTime;
          minutes = getMinutes istTime;
          timeInMinutes = hours * 60 + minutes;
          isWeekday = (dayOfWeek \<ge> 1 \<and> dayOfWeek \<le> 5);
          marketOpenTime = 9 * 60 + 15;
          marketCloseTime = 15 * 60 + 30
      in isWeekday \<and> timeInMinutes \<ge> marketOpenTime \<and> timeInMinutes < marketCloseTime)"

text \<open>\<^verbatim>\<open>new Date()\<close> in \<^verbatim>\<open>isMarketOpen\<close>: the next reading of the clock.\<close>

definition newDate :: "state \<Rightarrow> date \<times> state" where
  "newDate st = (shd (clock st), st\<lparr>clock := stl (clock st)\<rparr>)"

section \<open>The price history\<close>

text \<open>\<^verbatim>\<open>addToHistory\<close> (lines 386 to 391): \<^verbatim>\<open>push\<close>, then \<^verbatim>\<open>shift\<close> when too long.\<close>

definition addToHistory :: "state \<Rightarrow> js \<Rightarrow> state" where
  "addToHistory st price =
     (let pushed = priceHistory st @ [price]
      in if length pushed > maxHistoryLength st
         then st\<lparr>priceHistory := tl pushed\<rparr>
         else st\<lparr>priceHistory := pushed\<rparr>)"

text \<open>\<^verbatim>\<open>updateChart\<close> (lines 396 to 468): the chart shows the history.\<close>

definition updateChart :: "state \<Rightarrow> state" where
  "updateChart st = st\<lparr>document := (document st)\<lparr>priceChart := Some (priceHistory st)\<rparr>\<rparr>"

section \<open>The presenter\<close>

text \<open>
  \<^verbatim>\<open>v.toLocaleString(...)\<close>: a TypeError on \<^verbatim>\<open>undefined\<close> and \<^verbatim>\<open>null\<close>; every other
  value has the method (no object of the model has a property of its own that hides a
  method of \<^verbatim>\<open>Object.prototype\<close>). The text is modelled by the value formatted.
\<close>

definition toLocaleString :: "js \<Rightarrow> js_error + js" where
  "toLocaleString v = (if nullish v then Inl TypeError else Inr v)"

text \<open>\<^verbatim>\<open>data.k.toLocaleString(...)\<close>\<close>

definition formatted :: "js \<Rightarrow> string \<Rightarrow> js_error + js" where
  "formatted data k = andThen (getProp data k) toLocaleString"

text \<open>
  The body that \<^verbatim>\<open>updateUI\<close> (lines 325 to 381) and \<^verbatim>\<open>updateUIWithLastTradingDay\<close>
  (lines 80 to 136) share: they differ in the suffix of the time shown only. Each
  element is written in the order of the source, and an exception leaves the elements
  written before it. The elements of the page are taken to exist.
\<close>

definition showQuote :: "bool \<Rightarrow> state \<Rightarrow> js \<Rightarrow> (js_error + unit) \<times> state" where
  "showQuote lastTradingDay st data =
     (let st0 = st\<lparr>currentData := data\<rparr>; d0 = document st0 in
      case formatted data ''price'' of Inl e \<Rightarrow> (Inl e, st0) | Inr p \<Rightarrow>
      let d1 = d0\<lparr>price_el := Some p\<rparr> in
      case formatted data ''change'' of Inl e \<Rightarrow> (Inl e, st0\<lparr>document := d1\<rparr>) | Inr c \<Rightarrow>
      let d2 = d1\<lparr>changeValue_el := Some c\<rparr> in
      case getProp data ''changePercent'' of Inl e \<Rightarrow> (Inl e, st0\<lparr>document := d2\<rparr>) | Inr cp \<Rightarrow>
      let d3 = d2\<lparr>changePercent_el := Some cp\<rparr> in
      case formatted data ''high'' of Inl e \<Rightarrow> (Inl e, st0\<lparr>document := d3\<rparr>) | Inr h \<Rightarrow>
      let d4 = d3\<lparr>high_el := Some h\<rparr> in
      case formatted data ''low'' of Inl e \<Rightarrow> (Inl e, st0\<lparr>document := d4\<rparr>) | Inr l \<Rightarrow>
      let d5 = d4\<lparr>low_el := Some l\<rparr> in
      case formatted data ''open'' of Inl e \<Rightarrow> (Inl e, st0\<lparr>document := d5\<rparr>) | Inr o' \<Rightarrow>
      let d6 = d5\<lparr>open_el := Some o'\<rparr> in
      case formatted data ''close'' of Inl e \<Rightarrow> (Inl e, st0\<lparr>document := d6\<rparr>) | Inr cl \<Rightarrow>
      let d7 = d6\<lparr>close_el := Some cl\<rparr>;
          d8 = d7\<lparr>lastUpdated_el := Some lastTradingDay\<rparr>;
          st1 = st0\<lparr>document := d8\<rparr> in
      case getProp data ''price'' of Inl e \<Rightarrow> (Inl e, st1) | Inr price \<Rightarrow>
      (Inr (), updateChart (addToHistory st1 price)))"

definition updateUI :: "state \<Rightarrow> js \<Rightarrow> (js_error + unit) \<times> state" where
  "updateUI st data = showQuote False st data"

definition updateUIWithLastTradingDay :: "state \<Rightarrow> js \<Rightarrow> (js_error + unit) \<times> state" where
  "updateUIWithLastTradingDay st data = showQuote True st data"

section \<open>The live source\<close>

text \<open>\<^verbatim>\<open>await fetch(...)\<close> of the live URL: the next response of the environment.\<close>

definition fetchLive :: "state \<Rightarrow> response \<times> state" where
  "fetchLive st = (shd (liveResponses st), st\<lparr>liveResponses := stl (liveResponses st)\<rparr>)"

text \<open>\<^verbatim>\<open>result.quoteSummary.result[0]\<close>\<close>

definition firstResult :: "js \<Rightarrow> js_error + js" where
  "firstResult result =
     andThen (andThen (getProp result ''quoteSummary'') (\<lambda>q. getProp q ''result'')) getIndex0"

text \<open>\<^verbatim>\<open>priceData.k.raw\<close>\<close>

definition raw :: "js \<Rightarrow> string \<Rightarrow> js_error + js" where
  "raw priceData k = andThen (getProp priceData k) (\<lambda>w. getProp w ''raw'')"

text \<open>The object literal of lines 200 to 208.\<close>

definition liveQuote :: "js \<Rightarrow> js_error + js" where
  "liveQuote priceData =
     andThen (raw priceData ''regularMarketPrice'') (\<lambda>p.
     andThen (raw priceData ''regularMarketChange'') (\<lambda>c.
     andThen (raw priceData ''regularMarketChangePercent'') (\<lambda>cp.
     andThen (raw priceData ''regularMarketDayHigh'') (\<lambda>h.
     andThen (raw priceData ''regularMarketDayLow'') (\<lambda>l.
     andThen (raw priceData ''regularMarketOpen'') (\<lambda>o'.
     andThen (raw priceData ''regularMarketPreviousClose'') (\<lambda>cl.
     Inr (Obj (quote p c cp h l o' cl)))))))))"

text \<open>
  The \<^verbatim>\<open>try\<close> block of \<^verbatim>\<open>tryFetchFromFinance\<close> (lines 192 to 209) on a response: it
  returns a value (\<open>Some\<close>), falls through (\<open>None\<close>, the response is not ok) or throws.
\<close>

definition tryFetchFromFinance_try :: "response \<Rightarrow> js_error + js option" where
  "tryFetchFromFinance_try response =
     (case response of
        NetworkFailure \<Rightarrow> Inl TypeError
      | Response ok body \<Rightarrow>
          if ok then
            (case body of
               None \<Rightarrow> Inl SyntaxError
             | Some result \<Rightarrow>
                 andThen (andThen (firstResult result) (\<lambda>d. getProp d ''price'')) (\<lambda>priceData.
                 andThen (liveQuote priceData) (\<lambda>q. Inr (Some q))))
          else Inr None)"

text \<open>\<^verbatim>\<open>tryFetchFromFinance\<close> (lines 191 to 215): the \<^verbatim>\<open>catch\<close> logs, then \<^verbatim>\<open>return null\<close>.\<close>

definition tryFetchFromFinance :: "state \<Rightarrow> js \<times> state" where
  "tryFetchFromFinance st =
     (case fetchLive st of (response, st1) \<Rightarrow>
        (case tryFetchFromFinance_try response of
           Inr (Some data) \<Rightarrow> (data, st1)
         | Inr None \<Rightarrow> (Null, st1)
         | Inl e \<Rightarrow> (Null, st1)))"

section \<open>The last trading day\<close>

text \<open>\<^verbatim>\<open>getDefaultLastTradingDayData\<close> (lines 277 to 288)\<close>

definition getDefaultLastTradingDayData :: js where
  "getDefaultLastTradingDayData =
     Obj (quote (Num 24280.50) (Num 150.25) (Num 0.62) (Num 24450.75) (Num 23950.00)
            (Num 24100.00) (Num 24280.50) @ [(''isLastTradingDay'', Bool True)])"

definition fetchHist :: "state \<Rightarrow> response \<times> state" where
  "fetchHist st = (shd (histResponses st), st\<lparr>histResponses := stl (histResponses st)\<rparr>)"

text \<open>\<^verbatim>\<open>data.m?.f?.raw\<close>: only \<^verbatim>\<open>data.m\<close> can throw.\<close>

definition optRaw :: "js \<Rightarrow> string \<Rightarrow> string \<Rightarrow> js_error + js" where
  "optRaw data m f = andThen (getProp data m) (\<lambda>x. Inr (optProp (optProp x f) ''raw''))"

text \<open>The object literal of lines 252 to 261.\<close>

definition lastTradingPriceData :: "js \<Rightarrow> js_error + js" where
  "lastTradingPriceData data =
     andThen (optRaw data ''financialData'' ''regularMarketPrice'') (\<lambda>p.
     andThen (optRaw data ''financialData'' ''regularMarketChange'') (\<lambda>c.
     andThen (optRaw data ''financialData'' ''regularMarketChangePercent'') (\<lambda>cp.
     andThen (optRaw data ''defaultKeyStatistics'' ''fiftyTwoWeekHigh'') (\<lambda>h.
     andThen (optRaw data ''defaultKeyStatistics'' ''fiftyTwoWeekLow'') (\<lambda>l.
     andThen (optRaw data ''financialData'' ''regularMarketOpen'') (\<lambda>o'.
     andThen (optRaw data ''financialData'' ''regularMarketPreviousClose'') (\<lambda>cl.
     Inr (Obj (quote (orElse p (Num 24250)) (orElse c (Num 0)) (orElse cp (Num 0))
                 (orElse h (Num 25000)) (orElse l (Num 23000)) (orElse o' (Num 24000))
                 (orElse cl (Num 24250)) @ [(''isLastTradingDay'', Bool True)])))))))))"

text \<open>
  The \<^verbatim>\<open>try\<close> block of \<^verbatim>\<open>fetchLastTradingDayFromAPI\<close> (lines 243 to 266) up to the
  object literal: the record to store and return (\<open>Some\<close>), fall through, or throw.
\<close>

definition fetchLastTradingDayFromAPI_try :: "response \<Rightarrow> js_error + js option" where
  "fetchLastTradingDayFromAPI_try response =
     (case response of
        NetworkFailure \<Rightarrow> Inl TypeError
      | Response ok body \<Rightarrow>
          if ok then
            (case body of
               None \<Rightarrow> Inl SyntaxError
             | Some result \<Rightarrow>
                 andThen (firstResult result) (\<lambda>data.
                 andThen (lastTradingPriceData data) (\<lambda>priceData. Inr (Some priceData))))
          else Inr None)"

text \<open>
  \<^verbatim>\<open>fetchLastTradingDayFromAPI\<close> (lines 242 to 272). \<^verbatim>\<open>JSON.stringify\<close> of the record
  gives a text that parses back to it; \<^verbatim>\<open>setItem\<close> is taken to succeed.
\<close>

definition fetchLastTradingDayFromAPI :: "state \<Rightarrow> js \<times> state" where
  "fetchLastTradingDayFromAPI st =
     (case fetchHist st of (response, st1) \<Rightarrow>
        (case fetchLastTradingDayFromAPI_try response of
           Inr (Some priceData) \<Rightarrow> (priceData, st1\<lparr>localStorage := Some (Parseable priceData)\<rparr>)
         | Inr None \<Rightarrow> (Null, st1)
         | Inl e \<Rightarrow> (Null, st1)))"

text \<open>
  \<^verbatim>\<open>getLastTradingDayData\<close> (lines 220 to 237). \<^verbatim>\<open>getItem\<close> gives \<^verbatim>\<open>null\<close> (\<open>None\<close>)
  or the text stored; \<^verbatim>\<open>fetchLastTradingDayFromAPI\<close> never throws, so the \<^verbatim>\<open>catch\<close>
  runs for the exception of \<^verbatim>\<open>JSON.parse\<close> only.
\<close>

definition getLastTradingDayData :: "state \<Rightarrow> js \<times> state" where
  "getLastTradingDayData st =
     (case localStorage st of
        None \<Rightarrow> fetchLastTradingDayFromAPI st
      | Some storedData \<Rightarrow>
          if nonEmptyText storedData then
            (case JSON_parse storedData of
               Inl e \<Rightarrow> (getDefaultLastTradingDayData, st)
             | Inr parsedData \<Rightarrow> (parsedData, st))
          else fetchLastTradingDayFromAPI st)"

section \<open>Mock data\<close>

text \<open>\<^verbatim>\<open>Math.random()\<close>\<close>

definition random :: "state \<Rightarrow> real \<times> state" where
  "random st = (shd (randoms st), st\<lparr>randoms := stl (randoms st)\<rparr>)"

text \<open>
  \<^verbatim>\<open>parseFloat(x.toFixed(2))\<close>: \<^verbatim>\<open>toFixed\<close> works on the magnitude, takes the nearest
  multiple of 1/100 (the larger of two at equal distance) and, from 10^21 on, prints the
  number as it is.
\<close>

definition toFixed2 :: "real \<Rightarrow> real" where
  "toFixed2 x =
     (if \<bar>x\<bar> \<ge> 10 ^ 21 then x
      else if x < 0 then - (real_of_int \<lfloor>\<bar>x\<bar> * 100 + 1 / 2\<rfloor> / 100)
      else real_of_int \<lfloor>\<bar>x\<bar> * 100 + 1 / 2\<rfloor> / 100)"

text \<open>
  The number a truthy value stands for in \<^verbatim>\<open>+\<close>, \<^verbatim>\<open>-\<close> and \<^verbatim>\<open>/\<close>, where the model has
  one: a string, an array or an object is converted through its text, which is not
  modelled (\<open>None\<close>).
\<close>

fun number :: "js \<Rightarrow> real option" where
  "number (Num x) = Some x"
| "number (Bool b) = Some (if b then 1 else 0)"
| "number v = None"

text \<open>
  The object literal \<^verbatim>\<open>newData\<close> (lines 301 to 316) with the arithmetic before it, for a
  numeric \<open>basePrice\<close> and \<open>previousClose\<close> and the four values of \<^verbatim>\<open>Math.random()\<close>.
\<close>

definition newData :: "real \<Rightarrow> real \<Rightarrow> js \<Rightarrow> real \<Rightarrow> real \<Rightarrow> real \<Rightarrow> real \<Rightarrow> js" where
  "newData basePrice pc previousClose r1 r2 r3 r4 =
     (let variation = (r1 - 0.5) * 200;
          currentPrice = basePrice + variation;
          change = currentPrice - pc;
          changePercent = (change / pc) * 100
      in Obj (quote
           (Num (toFixed2 currentPrice))
           (Num (toFixed2 change))
           (Num (toFixed2 changePercent))
           (Num (toFixed2 (currentPrice + 100 + r2 * 50)))
           (Num (toFixed2 (currentPrice - 100 - r3 * 50)))
           (Num (toFixed2 (currentPrice + (r4 - 0.5) * 150)))
           previousClose))"

text \<open>
  \<^verbatim>\<open>generateMockData\<close> (lines 293 to 320). The result is \<open>None\<close> where the source goes
  on with a number read from a text (\<open>previousClose\<close> is a string, an array or an object).
  Where \<open>basePrice\<close> is one of these, \<^verbatim>\<open>basePrice + variation\<close> is a string, which has no
  \<^verbatim>\<open>toFixed\<close>: the object literal throws a TypeError at its first property.
\<close>

definition generateMockData :: "state \<Rightarrow> ((js_error + unit) \<times> state) option" where
  "generateMockData st =
     (case newDate st of (now, st1) \<Rightarrow>
        if \<not> isMarketOpen now then
          (case getLastTradingDayData st1 of (lastTradingData, st2) \<Rightarrow>
             Some (updateUIWithLastTradingDay st2 lastTradingData))
        else
          (case getProp (currentData st1) ''price'' of
             Inl e \<Rightarrow> Some (Inl e, st1)
           | Inr price \<Rightarrow>
               let basePrice = orElse price (Num 24250) in
               case random st1 of (r1, st2) \<Rightarrow>
               (case getProp (currentData st2) ''close'' of
                  Inl e \<Rightarrow> Some (Inl e, st2)
                | Inr cl \<Rightarrow>
                    let previousClose = orElse cl basePrice in
                    (case number basePrice of
                       None \<Rightarrow> Some (Inl TypeError, st2)
                     | Some b \<Rightarrow>
                         (case number previousClose of
                            None \<Rightarrow> None
                          | Some pc \<Rightarrow>
                              case random st2 of (r2, st3) \<Rightarrow>
                              case random st3 of (r3, st4) \<Rightarrow>
                              case random st4 of (r4, st5) \<Rightarrow>
                              Some (updateUI st5 (newData b pc previousClose r1 r2 r3 r4)))))))"

section \<open>The pipeline\<close>

text \<open>The \<^verbatim>\<open>try\<close> block of \<^verbatim>\<open>fetchNiftyPrice\<close> (lines 157 to 173).\<close>

definition fetchNiftyPrice_try :: "state \<Rightarrow> (js_error + unit) \<times> state" where
  "fetchNiftyPrice_try st =
     (case newDate st of (now, st1) \<Rightarrow>
        if isMarketOpen now then
          (case tryFetchFromFinance st1 of (data, st2) \<Rightarrow>
             if truthy data then updateUI st2 data
             else (Inl (Error ''Live data fetch failed''), st2))
        else
          (case getLastTradingDayData st1 of (lastTradingData, st2) \<Rightarrow>
             updateUIWithLastTradingDay st2 lastTradingData))"

text \<open>
  \<^verbatim>\<open>fetchNiftyPrice\<close> (lines 156 to 186), one tick. \<open>Inl e\<close> is the rejection of its
  promise. The call of \<^verbatim>\<open>generateMockData\<close> in the \<^verbatim>\<open>catch\<close> block is not awaited: its
  effects are part of the tick, its rejection is not the tick's. \<open>None\<close> comes from
  \<open>generateMockData\<close> only.
\<close>

definition fetchNiftyPrice :: "state \<Rightarrow> ((js_error + unit) \<times> state) option" where
  "fetchNiftyPrice st =
     (case fetchNiftyPrice_try st of
        (Inr u, st1) \<Rightarrow> Some (Inr u, st1)
      | (Inl error, st1) \<Rightarrow>
          (case newDate st1 of (now, st2) \<Rightarrow>
             if \<not> isMarketOpen now then
               (case getLastTradingDayData st2 of (lastTradingData, st3) \<Rightarrow>
                  Some (updateUIWithLastTradingDay st3 lastTradingData))
             else
               (case generateMockData st2 of
                  None \<Rightarrow> None
                | Some (r, st3) \<Rightarrow> Some (Inr (), st3))))"

section \<open>Concrete environments\<close>

text \<open>
  The state at page load in an environment that gives the same answer every time: one
  time of day, one response of each URL and one random value.
\<close>

definition pageLoad :: "stored option \<Rightarrow> date \<Rightarrow> response \<Rightarrow> response \<Rightarrow> real \<Rightarrow> state" where
  "pageLoad cache t live hist r =
     initialState cache (sconst t) (sconst live) (sconst hist) (sconst r)"

definition saturdayNoon :: date where
  "saturdayNoon = \<lparr>getDay = 6, getHours = 12, getMinutes = 0\<rparr>"

definition tuesdayTen :: date where
  "tuesdayTen = \<lparr>getDay = 2, getHours = 10, getMinutes = 0\<rparr>"

definition sundayEvening :: date where
  "sundayEvening = \<lparr>getDay = 0, getHours = 20, getMinutes = 0\<rparr>"

text \<open>A body \<^verbatim>\<open>{quoteSummary: {result: [d]}}\<close>.\<close>

definition payload :: "js \<Rightarrow> js" where
  "payload d = Obj [(''quoteSummary'', Obj [(''result'', Arr [d])])]"

text \<open>A historical body that holds \<^verbatim>\<open>financialData.regularMarketPrice.raw\<close> and nothing else.\<close>

definition onlyPricePayload :: "js \<Rightarrow> js" where
  "onlyPricePayload v =
     payload (Obj [(''financialData'', Obj [(''regularMarketPrice'', Obj [(''raw'', v)])])])"

text \<open>The first result of a historical body in which each of the seven numbers is 0.\<close>

definition zeroData :: js where
  "zeroData =
     Obj [(''financialData'',
            Obj [(''regularMarketPrice'', Obj [(''raw'', Num 0)]),
                 (''regularMarketChange'', Obj [(''raw'', Num 0)]),
                 (''regularMarketChangePercent'', Obj [(''raw'', Num 0)]),
                 (''regularMarketOpen'', Obj [(''raw'', Num 0)]),
                 (''regularMarketPreviousClose'', Obj [(''raw'', Num 0)])]),
          (''defaultKeyStatistics'',
            Obj [(''fiftyTwoWeekHigh'', Obj [(''raw'', Num 0)]),
                 (''fiftyTwoWeekLow'', Obj [(''raw'', Num 0)])])]"

text \<open>The \<^verbatim>\<open>price\<close> module of a live body whose seven fields are objects without \<^verbatim>\<open>raw\<close>.\<close>

definition emptyWrappers :: js where
  "emptyWrappers =
     Obj [(''regularMarketPrice'', Obj []), (''regularMarketChange'', Obj []),
          (''regularMarketChangePercent'', Obj []), (''regularMarketDayHigh'', Obj []),
          (''regularMarketDayLow'', Obj []), (''regularMarketOpen'', Obj []),
          (''regularMarketPreviousClose'', Obj [])]"

text \<open>The \<^verbatim>\<open>price\<close> module of a live body with the seven numbers.\<close>

definition fullWrappers :: js where
  "fullWrappers =
     Obj [(''regularMarketPrice'', Obj [(''raw'', Num 24300)]),
          (''regularMarketChange'', Obj [(''raw'', Num 50)]),
          (''regularMarketChangePercent'', Obj [(''raw'', Num 0.21)]),
          (''regularMarketDayHigh'', Obj [(''raw'', Num 24400)]),
          (''regularMarketDayLow'', Obj [(''raw'', Num 24200)]),
          (''regularMarketOpen'', Obj [(''raw'', Num 24260)]),
          (''regularMarketPreviousClose'', Obj [(''raw'', Num 24250)])]"

section \<open>The invariant of a quote, on the page\<close>




section \<open>Properties of the calendar and of the history\<close>

lemma addToHistory_max [simp]: "maxHistoryLength (addToHistory st v) = maxHistoryLength st"
  by (simp add: addToHistory_def Let_def)

lemma addToHistory_drop:
  "length (priceHistory st) \<le> maxHistoryLength st \<Longrightarrow>
   priceHistory (addToHistory st v) =
     drop (Suc (length (priceHistory st)) - maxHistoryLength st) (priceHistory st @ [v])"
  by (cases "priceHistory st") (auto simp: addToHistory_def Let_def Suc_diff_le)

lemma addToHistory_length:
  "length (priceHistory st) \<le> maxHistoryLength st \<Longrightarrow>
   length (priceHistory (addToHistory st v)) \<le> maxHistoryLength st"
  by (auto simp: addToHistory_def Let_def)

lemma foldl_addToHistory_max [simp]:
  "maxHistoryLength (foldl addToHistory st vs) = maxHistoryLength st"
  by (induction vs arbitrary: st) simp_all

lemma foldl_addToHistory_length:
  "length (priceHistory st) \<le> maxHistoryLength st \<Longrightarrow>
   length (priceHistory (foldl addToHistory st vs)) \<le> maxHistoryLength st"
proof (induction vs arbitrary: st)
  case Nil
  then show ?case by simp
next
  case (Cons v vs)
  have "length (priceHistory (addToHistory st v)) \<le> maxHistoryLength (addToHistory st v)"
    using Cons.prems by (simp add: addToHistory_length)
  from Cons.IH [OF this] show ?case by simp
qed

lemma foldl_addToHistory_drop:
  "length (priceHistory st) \<le> maxHistoryLength st \<Longrightarrow>
   priceHistory (foldl addToHistory st vs) =
     drop (length (priceHistory st) + length vs - maxHistoryLength st) (priceHistory st @ vs)"
proof (induction vs arbitrary: st)
  case Nil
  then show ?case by simp
next
  case (Cons v vs)
  let ?h = "priceHistory st" and ?c = "maxHistoryLength st"
  have len: "length (priceHistory (addToHistory st v)) \<le> maxHistoryLength (addToHistory st v)"
    using Cons.prems by (simp add: addToHistory_length)
  have step: "priceHistory (addToHistory st v) = drop (Suc (length ?h) - ?c) (?h @ [v])"
    using Cons.prems by (rule addToHistory_drop)
  have "priceHistory (foldl addToHistory st (v # vs)) =
        drop (length (priceHistory (addToHistory st v)) + length vs - ?c)
          (priceHistory (addToHistory st v) @ vs)"
    using Cons.IH [OF len] by simp
  also have "\<dots> = drop (length ?h + length (v # vs) - ?c) (?h @ v # vs)"
  proof (cases "Suc (length ?h) \<le> ?c")
    case True
    then show ?thesis by (simp add: step)
  next
    case False
    with Cons.prems have eq: "length ?h = ?c" by simp
    show ?thesis
    proof (cases ?h)
      case Nil
      with eq have "?c = 0" by simp
      with Nil show ?thesis by (simp add: step)
    next
      case (Cons a as)
      with eq have "?c = Suc (length as)" by simp
      with Cons show ?thesis by (simp add: step)
    qed
  qed
  finally show ?case .
qed

text \<open>
  C6. \<^verbatim>\<open>isMarketOpen\<close> holds exactly when the weekday in Asia/Kolkata is Monday to
  Friday and the minute of the day lies in the half-open interval [555, 930). At 09:15
  it holds on exactly the weekdays, at 15:30 it does not hold, and on Saturday (6) and
  Sunday (0) it holds at no time of day.
\<close>

theorem isMarketOpen_iff:
  "(isMarketOpen t \<longleftrightarrow>
      1 \<le> getDay t \<and> getDay t \<le> 5 \<and>
      555 \<le> getHours t * 60 + getMinutes t \<and> getHours t * 60 + getMinutes t < 930) \<and>
   (isMarketOpen \<lparr>getDay = d, getHours = 9, getMinutes = 15\<rparr> \<longleftrightarrow> 1 \<le> d \<and> d \<le> 5) \<and>
   \<not> isMarketOpen \<lparr>getDay = d, getHours = 15, getMinutes = 30\<rparr> \<and>
   \<not> isMarketOpen \<lparr>getDay = 6, getHours = h, getMinutes = m\<rparr> \<and>
   \<not> isMarketOpen \<lparr>getDay = 0, getHours = h, getMinutes = m\<rparr>"
  by (simp add: isMarketOpen_def Let_def)

text \<open>
  C7. Starting from a history no longer than the capacity, no sequence of appends makes
  it longer than the capacity; after capacity + 5 appends its length is the capacity and
  it holds exactly the last capacity values appended, in the order they were appended.
\<close>

theorem addToHistory_bounded_fifo:
  assumes "length (priceHistory st) \<le> maxHistoryLength st"
  shows "length (priceHistory (foldl addToHistory st vs)) \<le> maxHistoryLength st \<and>
         (length vs = maxHistoryLength st + 5 \<longrightarrow>
            length (priceHistory (foldl addToHistory st vs)) = maxHistoryLength st \<and>
            priceHistory (foldl addToHistory st vs) = drop 5 vs)"
proof -
  have "priceHistory (foldl addToHistory st vs) = drop 5 vs"
    if "length vs = maxHistoryLength st + 5"
    using that assms by (simp add: foldl_addToHistory_drop)
  then show ?thesis
    using assms by (auto simp: foldl_addToHistory_length)
qed

theorem addToHistory_bounded_fifo_witness:
  "length (priceHistory (pageLoad None saturdayNoon NetworkFailure NetworkFailure 0))
     \<le> maxHistoryLength (pageLoad None saturdayNoon NetworkFailure NetworkFailure 0) \<and>
   length (map Num [1, 2, 3, 4, 5, 6, 7, 8, 9, 10, 11, 12, 13, 14, 15, 16, 17, 18, 19, 20,
                    21, 22, 23, 24, 25]) =
     maxHistoryLength (pageLoad None saturdayNoon NetworkFailure NetworkFailure 0) + 5 \<and>
   priceHistory (foldl addToHistory (pageLoad None saturdayNoon NetworkFailure NetworkFailure 0)
     (map Num [1, 2, 3, 4, 5, 6, 7, 8, 9, 10, 11, 12, 13, 14, 15, 16, 17, 18, 19, 20,
               21, 22, 23, 24, 25])) =
     map Num [6, 7, 8, 9, 10, 11, 12, 13, 14, 15, 16, 17, 18, 19, 20, 21, 22, 23, 24, 25]"
  using addToHistory_bounded_fifo [of "pageLoad None saturdayNoon NetworkFailure NetworkFailure 0"
     "map Num [1, 2, 3, 4, 5, 6, 7, 8, 9, 10, 11, 12, 13, 14, 15, 16, 17, 18, 19, 20,
               21, 22, 23, 24, 25]"]
  by (simp add: pageLoad_def initialState_def)

section \<open>Running the model\<close>

lemmas tick_defs = fetchNiftyPrice_def fetchNiftyPrice_try_def newDate_def isMarketOpen_def
  getLastTradingDayData_def fetchLastTradingDayFromAPI_def fetchLastTradingDayFromAPI_try_def
  fetchHist_def updateUIWithLastTradingDay_def updateUI_def showQuote_def formatted_def
  andThen_def toLocaleString_def tryFetchFromFinance_def tryFetchFromFinance_try_def
  fetchLive_def generateMockData_def random_def Let_def

lemmas env_defs = pageLoad_def initialState_def saturdayNoon_def tuesdayTen_def
  sundayEvening_def blankPage_def

lemmas hist_defs = fetchLastTradingDayFromAPI_def fetchLastTradingDayFromAPI_try_def
  fetchHist_def firstResult_def lastTradingPriceData_def optRaw_def andThen_def

section \<open>The last trading day: what is returned\<close>

text \<open>
  C1, at the input where the code departs from it: the cache is empty and the historical
  request fails (a response that is not ok, or a rejected request). The function returns
  \<^verbatim>\<open>null\<close>, not a record: \<^verbatim>\<open>fetchLastTradingDayFromAPI\<close> catches its own exceptions and
  returns \<^verbatim>\<open>null\<close>, which \<^verbatim>\<open>getLastTradingDayData\<close> passes on, so the default record of
  its \<^verbatim>\<open>catch\<close> block is not reached.
\<close>

theorem getLastTradingDayData_returns_null:
  "getLastTradingDayData (pageLoad None saturdayNoon NetworkFailure (Response False None) 0) =
     (Null, pageLoad None saturdayNoon NetworkFailure (Response False None) 0) \<and>
   getLastTradingDayData (pageLoad None saturdayNoon NetworkFailure NetworkFailure 0) =
     (Null, pageLoad None saturdayNoon NetworkFailure NetworkFailure 0)"
  by (simp add: tick_defs env_defs)

text \<open>
  C2, at its own input: the first tick after page load on a Saturday, with an empty cache
  and a historical response that is not ok. The promise of \<^verbatim>\<open>fetchNiftyPrice\<close> rejects
  with the TypeError of \<^verbatim>\<open>data.price\<close> on \<^verbatim>\<open>null\<close>; no element of the page is written and
  \<open>currentData\<close> is left \<^verbatim>\<open>null\<close>. The default quote is not shown.
\<close>

theorem closed_tick_rejects:
  "fetchNiftyPrice (pageLoad None saturdayNoon NetworkFailure (Response False None) 0) =
     Some (Inl TypeError,
           (pageLoad None saturdayNoon NetworkFailure (Response False None) 0)
             \<lparr>currentData := Null\<rparr>)"
  by (simp add: tick_defs env_defs)

text \<open>
  C3, at two ticks that show no quote. On Sunday evening, with an empty cache and both
  requests rejected, the tick rejects with a TypeError and writes nothing. It leaves
  \<open>currentData\<close> \<^verbatim>\<open>null\<close>, so on Tuesday at 10:00, with the live request rejected,
  \<^verbatim>\<open>generateMockData\<close> throws at \<^verbatim>\<open>currentData.price\<close>: the tick ends with the page still
  as it was loaded.
\<close>

theorem presenter_left_uncalled:
  "fetchNiftyPrice
     (initialState None (sundayEvening ## sundayEvening ## sconst tuesdayTen)
        (sconst NetworkFailure) (sconst NetworkFailure) (sconst (1 / 2))) =
     Some (Inl TypeError,
       (initialState None (sconst tuesdayTen)
          (sconst NetworkFailure) (sconst NetworkFailure) (sconst (1 / 2)))
         \<lparr>currentData := Null\<rparr>) \<and>
   fetchNiftyPrice
     ((initialState None (sconst tuesdayTen)
         (sconst NetworkFailure) (sconst NetworkFailure) (sconst (1 / 2)))
        \<lparr>currentData := Null\<rparr>) =
     Some (Inr (),
       (initialState None (sconst tuesdayTen)
          (sconst NetworkFailure) (sconst NetworkFailure) (sconst (1 / 2)))
         \<lparr>currentData := Null\<rparr>) \<and>
   document
     ((initialState None (sconst tuesdayTen)
         (sconst NetworkFailure) (sconst NetworkFailure) (sconst (1 / 2)))
        \<lparr>currentData := Null\<rparr>) = blankPage"
  by (simp add: tick_defs env_defs)

section \<open>The historical record: defaults field by field\<close>

text \<open>
  C5, as amended: when the historical request succeeds with a body that holds only
  \<^verbatim>\<open>regularMarketPrice\<close>, and its value is truthy (a number other than 0), the record
  returned has that price, every other field at its constant (change 0, changePercent 0,
  high 25000, low 23000, open 24000, close 24250), and it is the record stored.
\<close>

theorem only_price_present:
  assumes "shd (histResponses st) = Response True (Some (onlyPricePayload v))" and "truthy v"
  shows "fst (fetchLastTradingDayFromAPI st) =
           Obj (quote v (Num 0) (Num 0) (Num 25000) (Num 23000) (Num 24000) (Num 24250)
                  @ [(''isLastTradingDay'', Bool True)]) \<and>
         localStorage (snd (fetchLastTradingDayFromAPI st)) =
           Some (Parseable (fst (fetchLastTradingDayFromAPI st)))"
  using assms
  by (simp add: hist_defs onlyPricePayload_def payload_def optProp_def orElse_def)

text \<open>The amended C5 at a body with the price 24500.\<close>

theorem only_price_present_witness:
  "shd (histResponses (pageLoad None saturdayNoon NetworkFailure
          (Response True (Some (onlyPricePayload (Num 24500)))) 0)) =
     Response True (Some (onlyPricePayload (Num 24500))) \<and>
   truthy (Num 24500) \<and>
   fst (fetchLastTradingDayFromAPI (pageLoad None saturdayNoon NetworkFailure
          (Response True (Some (onlyPricePayload (Num 24500)))) 0)) =
     Obj (quote (Num 24500) (Num 0) (Num 0) (Num 25000) (Num 23000) (Num 24000) (Num 24250)
            @ [(''isLastTradingDay'', Bool True)])"
  using only_price_present [of "pageLoad None saturdayNoon NetworkFailure
          (Response True (Some (onlyPricePayload (Num 24500)))) 0" "Num 24500"]
  by (simp add: env_defs)

text \<open>
  C5 as stated fails where the price returned is 0: the record's price is 24250, not the
  value returned.
\<close>

theorem only_price_zero_counterexample:
  "getProp (fst (fetchLastTradingDayFromAPI (pageLoad None saturdayNoon NetworkFailure
          (Response True (Some (onlyPricePayload (Num 0)))) 0))) ''price'' = Inr (Num 24250) \<and>
   getProp (fst (fetchLastTradingDayFromAPI (pageLoad None saturdayNoon NetworkFailure
          (Response True (Some (onlyPricePayload (Num 0)))) 0))) ''price'' \<noteq> Inr (Num 0)"
  by (simp add: hist_defs env_defs onlyPricePayload_def payload_def optProp_def orElse_def
        quote_def)

text \<open>
  C10. In a successful historical fetch a field whose extracted value is falsy, the
  number 0 among them, is replaced by the field's constant: price 24250, change 0,
  changePercent 0, high 25000, low 23000, open 24000, close 24250.
\<close>

theorem falsy_field_takes_default:
  assumes "shd (histResponses st) = Response True (Some result)"
      and "firstResult result = Inr data"
  shows "(optRaw data ''financialData'' ''regularMarketPrice'' = Inr v \<and> \<not> truthy v \<longrightarrow>
            getProp (fst (fetchLastTradingDayFromAPI st)) ''price'' = Inr (Num 24250)) \<and>
         (optRaw data ''financialData'' ''regularMarketChange'' = Inr v \<and> \<not> truthy v \<longrightarrow>
            getProp (fst (fetchLastTradingDayFromAPI st)) ''change'' = Inr (Num 0)) \<and>
         (optRaw data ''financialData'' ''regularMarketChangePercent'' = Inr v \<and> \<not> truthy v \<longrightarrow>
            getProp (fst (fetchLastTradingDayFromAPI st)) ''changePercent'' = Inr (Num 0)) \<and>
         (optRaw data ''defaultKeyStatistics'' ''fiftyTwoWeekHigh'' = Inr v \<and> \<not> truthy v \<longrightarrow>
            getProp (fst (fetchLastTradingDayFromAPI st)) ''high'' = Inr (Num 25000)) \<and>
         (optRaw data ''defaultKeyStatistics'' ''fiftyTwoWeekLow'' = Inr v \<and> \<not> truthy v \<longrightarrow>
            getProp (fst (fetchLastTradingDayFromAPI st)) ''low'' = Inr (Num 23000)) \<and>
         (optRaw data ''financialData'' ''regularMarketOpen'' = Inr v \<and> \<not> truthy v \<longrightarrow>
            getProp (fst (fetchLastTradingDayFromAPI st)) ''open'' = Inr (Num 24000)) \<and>
         (optRaw data ''financialData'' ''regularMarketPreviousClose'' = Inr v \<and> \<not> truthy v \<longrightarrow>
            getProp (fst (fetchLastTradingDayFromAPI st)) ''close'' = Inr (Num 24250))"
proof (cases "nullish data")
  case True
  then show ?thesis by (cases data) (simp_all add: optRaw_def andThen_def)
next
  case False
  then have "\<exists>w. getProp data m = Inr w" for m
    by (cases data) simp_all
  then obtain fd ks where
    "getProp data ''financialData'' = Inr fd" "getProp data ''defaultKeyStatistics'' = Inr ks"
    by blast
  then show ?thesis using assms
    by (simp add: hist_defs orElse_def quote_def)
qed

text \<open>C10 at a body in which each of the seven numbers is 0.\<close>

theorem falsy_field_takes_default_witness:
  "shd (histResponses (pageLoad None saturdayNoon NetworkFailure
          (Response True (Some (payload zeroData))) 0)) = Response True (Some (payload zeroData)) \<and>
   firstResult (payload zeroData) = Inr zeroData \<and>
   optRaw zeroData ''financialData'' ''regularMarketPrice'' = Inr (Num 0) \<and>
   optRaw zeroData ''defaultKeyStatistics'' ''fiftyTwoWeekHigh'' = Inr (Num 0) \<and>
   \<not> truthy (Num 0) \<and>
   getProp (fst (fetchLastTradingDayFromAPI (pageLoad None saturdayNoon NetworkFailure
          (Response True (Some (payload zeroData))) 0))) ''price'' = Inr (Num 24250) \<and>
   getProp (fst (fetchLastTradingDayFromAPI (pageLoad None saturdayNoon NetworkFailure
          (Response True (Some (payload zeroData))) 0))) ''high'' = Inr (Num 25000)"
  using falsy_field_takes_default [of "pageLoad None saturdayNoon NetworkFailure
          (Response True (Some (payload zeroData))) 0" "payload zeroData" zeroData "Num 0"]
  by (simp add: env_defs payload_def zeroData_def firstResult_def optRaw_def optProp_def
        andThen_def)

section \<open>The cache slot: when it is written\<close>

text \<open>
  C9. A cached text that parses is returned as it is, with the whole state unchanged: no
  response of the environment is consumed and the slot is not written. The default
  record, returned for a cached text that does not parse, leaves the state unchanged
  too. Whenever the slot changes, the \<^verbatim>\<open>try\<close> block of the historical fetch returned the
  record, which is the value now stored.
\<close>

theorem cache_written_on_remote_success_only:
  "(localStorage st = Some (Parseable v) \<longrightarrow> getLastTradingDayData st = (v, st)) \<and>
   (localStorage st = Some (Unparseable s) \<and> s \<noteq> [] \<longrightarrow>
      getLastTradingDayData st = (getDefaultLastTradingDayData, st)) \<and>
   (localStorage (snd (getLastTradingDayData st)) \<noteq> localStorage st \<longrightarrow>
      fetchLastTradingDayFromAPI_try (shd (histResponses st)) =
        Inr (Some (fst (getLastTradingDayData st))) \<and>
      localStorage (snd (getLastTradingDayData st)) =
        Some (Parseable (fst (getLastTradingDayData st))))"
proof -
  have w: "fetchLastTradingDayFromAPI_try (shd (histResponses st)) =
             Inr (Some (fst (fetchLastTradingDayFromAPI st))) \<and>
           localStorage (snd (fetchLastTradingDayFromAPI st)) =
             Some (Parseable (fst (fetchLastTradingDayFromAPI st)))"
    if "localStorage (snd (fetchLastTradingDayFromAPI st)) \<noteq> localStorage st"
    using that
    by (auto simp: fetchLastTradingDayFromAPI_def fetchHist_def split: sum.splits option.splits)
  show ?thesis
    using w by (auto simp: getLastTradingDayData_def split: option.splits sum.splits)
qed

text \<open>
  C9 at three caches: the default record cached, a lone opening brace cached, and an empty
  cache with a historical response that holds the price 24500.
\<close>

theorem cache_written_on_remote_success_only_witness:
  "localStorage (pageLoad (Some (Parseable getDefaultLastTradingDayData)) saturdayNoon
       NetworkFailure NetworkFailure 0) = Some (Parseable getDefaultLastTradingDayData) \<and>
   getLastTradingDayData (pageLoad (Some (Parseable getDefaultLastTradingDayData)) saturdayNoon
       NetworkFailure NetworkFailure 0) =
     (getDefaultLastTradingDayData,
      pageLoad (Some (Parseable getDefaultLastTradingDayData)) saturdayNoon
        NetworkFailure NetworkFailure 0) \<and>
   localStorage (pageLoad (Some (Unparseable ''{'')) saturdayNoon NetworkFailure NetworkFailure 0) =
     Some (Unparseable ''{'') \<and>
   ''{'' \<noteq> [] \<and>
   getLastTradingDayData (pageLoad (Some (Unparseable ''{'')) saturdayNoon
       NetworkFailure NetworkFailure 0) =
     (getDefaultLastTradingDayData,
      pageLoad (Some (Unparseable ''{'')) saturdayNoon NetworkFailure NetworkFailure 0) \<and>
   localStorage (snd (getLastTradingDayData (pageLoad None saturdayNoon NetworkFailure
       (Response True (Some (onlyPricePayload (Num 24500)))) 0))) \<noteq>
     localStorage (pageLoad None saturdayNoon NetworkFailure
       (Response True (Some (onlyPricePayload (Num 24500)))) 0) \<and>
   fetchLastTradingDayFromAPI_try (shd (histResponses (pageLoad None saturdayNoon NetworkFailure
       (Response True (Some (onlyPricePayload (Num 24500)))) 0))) =
     Inr (Some (fst (getLastTradingDayData (pageLoad None saturdayNoon NetworkFailure
       (Response True (Some (onlyPricePayload (Num 24500)))) 0))))"
  using cache_written_on_remote_success_only
          [of "pageLoad (Some (Parseable getDefaultLastTradingDayData)) saturdayNoon
                 NetworkFailure NetworkFailure 0" getDefaultLastTradingDayData "''{''"]
        cache_written_on_remote_success_only
          [of "pageLoad (Some (Unparseable ''{'')) saturdayNoon NetworkFailure NetworkFailure 0"
              Null "''{''"]
        cache_written_on_remote_success_only
          [of "pageLoad None saturdayNoon NetworkFailure
                 (Response True (Some (onlyPricePayload (Num 24500)))) 0" Null "''{''"]
  by (simp add: env_defs getLastTradingDayData_def hist_defs onlyPricePayload_def payload_def
        optProp_def)

section \<open>The live source: failure and success\<close>

lemma raw_Inr_iff:
  "raw priceData k = Inr v \<longleftrightarrow>
     \<not> nullish priceData \<and> \<not> nullish (optProp priceData k) \<and>
     v = optProp (optProp priceData k) ''raw''"
proof (cases "nullish priceData")
  case True
  then show ?thesis by (cases priceData) (simp_all add: raw_def andThen_def)
next
  case False
  then obtain w where w: "getProp priceData k = Inr w" by (cases priceData) simp_all
  show ?thesis
  proof (cases "nullish w")
    case True
    with w False show ?thesis by (cases w) (auto simp: raw_def andThen_def optProp_def)
  next
    case nw: False
    then obtain u where "getProp w ''raw'' = Inr u" by (cases w) simp_all
    with w False nw show ?thesis by (auto simp: raw_def andThen_def optProp_def)
  qed
qed

lemma liveQuote_Inr_iff:
  "liveQuote priceData = Inr q \<longleftrightarrow>
     (\<exists>p c cp h l o' cl.
        raw priceData ''regularMarketPrice'' = Inr p \<and>
        raw priceData ''regularMarketChange'' = Inr c \<and>
        raw priceData ''regularMarketChangePercent'' = Inr cp \<and>
        raw priceData ''regularMarketDayHigh'' = Inr h \<and>
        raw priceData ''regularMarketDayLow'' = Inr l \<and>
        raw priceData ''regularMarketOpen'' = Inr o' \<and>
        raw priceData ''regularMarketPreviousClose'' = Inr cl \<and>
        q = Obj (quote p c cp h l o' cl))"
  by (auto simp: liveQuote_def andThen_def split: sum.splits)

text \<open>
  C8, as amended. \<^verbatim>\<open>tryFetchFromFinance\<close> returns a value in every case (it has no
  exception to give). It returns \<^verbatim>\<open>null\<close> when the request is rejected, when the response
  is not ok and when the body is not JSON. It returns something else exactly when the
  response is ok, the body parses, \<^verbatim>\<open>result.quoteSummary.result[0].price\<close> can be read and
  each of the seven \<^verbatim>\<open>priceData.k.raw\<close> can be read; the value is then the record of the
  seven values read. Reading \<^verbatim>\<open>priceData.k.raw\<close> needs \<^verbatim>\<open>priceData\<close> and \<^verbatim>\<open>priceData.k\<close>
  to be neither \<^verbatim>\<open>undefined\<close> nor \<^verbatim>\<open>null\<close>, and nothing of \<^verbatim>\<open>raw\<close>: the value read may be
  \<^verbatim>\<open>undefined\<close> or no number.
\<close>

theorem tryFetchFromFinance_failure:
  "fst (tryFetchFromFinance (st\<lparr>liveResponses := NetworkFailure ## rs\<rparr>)) = Null \<and>
   fst (tryFetchFromFinance (st\<lparr>liveResponses := Response False body ## rs\<rparr>)) = Null \<and>
   fst (tryFetchFromFinance (st\<lparr>liveResponses := Response True None ## rs\<rparr>)) = Null \<and>
   (fst (tryFetchFromFinance st) \<noteq> Null \<longleftrightarrow>
      (\<exists>result priceData p c cp h l o' cl.
         shd (liveResponses st) = Response True (Some result) \<and>
         andThen (firstResult result) (\<lambda>d. getProp d ''price'') = Inr priceData \<and>
         raw priceData ''regularMarketPrice'' = Inr p \<and>
         raw priceData ''regularMarketChange'' = Inr c \<and>
         raw priceData ''regularMarketChangePercent'' = Inr cp \<and>
         raw priceData ''regularMarketDayHigh'' = Inr h \<and>
         raw priceData ''regularMarketDayLow'' = Inr l \<and>
         raw priceData ''regularMarketOpen'' = Inr o' \<and>
         raw priceData ''regularMarketPreviousClose'' = Inr cl \<and>
         fst (tryFetchFromFinance st) = Obj (quote p c cp h l o' cl))) \<and>
   (raw pd k = Inr v \<longleftrightarrow>
      \<not> nullish pd \<and> \<not> nullish (optProp pd k) \<and> v = optProp (optProp pd k) ''raw'')"
proof -
  have a: "fst (tryFetchFromFinance (st\<lparr>liveResponses := NetworkFailure ## rs\<rparr>)) = Null"
    by (simp add: tryFetchFromFinance_def fetchLive_def tryFetchFromFinance_try_def)
  have b: "fst (tryFetchFromFinance (st\<lparr>liveResponses := Response False body ## rs\<rparr>)) = Null"
    by (simp add: tryFetchFromFinance_def fetchLive_def tryFetchFromFinance_try_def)
  have c: "fst (tryFetchFromFinance (st\<lparr>liveResponses := Response True None ## rs\<rparr>)) = Null"
    by (simp add: tryFetchFromFinance_def fetchLive_def tryFetchFromFinance_try_def)
  have d: "fst (tryFetchFromFinance st) \<noteq> Null \<longleftrightarrow>
      (\<exists>result priceData p c cp h l o' cl.
         shd (liveResponses st) = Response True (Some result) \<and>
         andThen (firstResult result) (\<lambda>d. getProp d ''price'') = Inr priceData \<and>
         raw priceData ''regularMarketPrice'' = Inr p \<and>
         raw priceData ''regularMarketChange'' = Inr c \<and>
         raw priceData ''regularMarketChangePercent'' = Inr cp \<and>
         raw priceData ''regularMarketDayHigh'' = Inr h \<and>
         raw priceData ''regularMarketDayLow'' = Inr l \<and>
         raw priceData ''regularMarketOpen'' = Inr o' \<and>
         raw priceData ''regularMarketPreviousClose'' = Inr cl \<and>
         fst (tryFetchFromFinance st) = Obj (quote p c cp h l o' cl))" (is "?L \<longleftrightarrow> ?R")
  proof
    assume ?L
    then obtain q where q: "tryFetchFromFinance_try (shd (liveResponses st)) = Inr (Some q)"
      and r: "fst (tryFetchFromFinance st) = q"
      by (auto simp: tryFetchFromFinance_def fetchLive_def split: sum.splits option.splits)
    from q obtain result where resp: "shd (liveResponses st) = Response True (Some result)"
      by (auto simp: tryFetchFromFinance_try_def split: response.splits if_splits option.splits)
    from q resp obtain priceData where
      pd: "andThen (firstResult result) (\<lambda>d. getProp d ''price'') = Inr priceData"
      and lq: "liveQuote priceData = Inr q"
      by (cases "andThen (firstResult result) (\<lambda>d. getProp d ''price'')";
          cases "liveQuote (projr (andThen (firstResult result) (\<lambda>d. getProp d ''price'')))")
         (auto simp: tryFetchFromFinance_try_def andThen_def)
    from lq resp pd r show ?R
      unfolding liveQuote_Inr_iff by blast
  next
    assume ?R
    then show ?L by auto
  qed
  show ?thesis using a b c d raw_Inr_iff by blast
qed

text \<open>
  The amended C8 at a body with the seven numbers (a record is returned), and at a body
  whose \<^verbatim>\<open>price\<close> module is empty (\<^verbatim>\<open>null\<close> is returned).
\<close>

theorem tryFetchFromFinance_failure_witness:
  "fst (tryFetchFromFinance (pageLoad None tuesdayTen
          (Response True (Some (payload (Obj [(''price'', fullWrappers)])))) NetworkFailure 0)) =
     Obj (quote (Num 24300) (Num 50) (Num 0.21) (Num 24400) (Num 24200) (Num 24260)
            (Num 24250)) \<and>
   fst (tryFetchFromFinance (pageLoad None tuesdayTen
          (Response True (Some (payload (Obj [(''price'', Obj [])])))) NetworkFailure 0)) = Null \<and>
   fst (tryFetchFromFinance ((pageLoad None tuesdayTen
          (Response True (Some (payload (Obj [(''price'', fullWrappers)])))) NetworkFailure 0)
          \<lparr>liveResponses := NetworkFailure ## sconst NetworkFailure\<rparr>)) = Null"
  using tryFetchFromFinance_failure [where st = "pageLoad None tuesdayTen
          (Response True (Some (payload (Obj [(''price'', fullWrappers)])))) NetworkFailure 0"
          and rs = "sconst NetworkFailure"]
        tryFetchFromFinance_failure [where st = "pageLoad None tuesdayTen
          (Response True (Some (payload (Obj [(''price'', Obj [])])))) NetworkFailure 0"]
  by (simp add: env_defs tryFetchFromFinance_def fetchLive_def tryFetchFromFinance_try_def
        payload_def fullWrappers_def firstResult_def liveQuote_def raw_def andThen_def)

text \<open>
  C8 as stated fails at a body whose seven fields are objects without \<^verbatim>\<open>raw\<close>: no number
  is there to extract, and the function returns a record of seven \<^verbatim>\<open>undefined\<close>, not
  \<^verbatim>\<open>null\<close>.
\<close>

theorem empty_wrappers_counterexample:
  "fst (tryFetchFromFinance (pageLoad None tuesdayTen
          (Response True (Some (payload (Obj [(''price'', emptyWrappers)])))) NetworkFailure 0)) =
     Obj (quote Undefined Undefined Undefined Undefined Undefined Undefined Undefined) \<and>
   fst (tryFetchFromFinance (pageLoad None tuesdayTen
          (Response True (Some (payload (Obj [(''price'', emptyWrappers)])))) NetworkFailure 0)) \<noteq>
     Null"
  by (simp add: env_defs tryFetchFromFinance_def fetchLive_def tryFetchFromFinance_try_def
        payload_def emptyWrappers_def firstResult_def liveQuote_def raw_def andThen_def)

section \<open>Mock data: the quote is rounded\<close>















end
